theory Spec2Isabelle
  imports Main
begin

section \<open>Python strings\<close>

text \<open>
  A Python \<open>str\<close> is modelled as a \<open>string\<close> whose characters are code points below 256.
  \<open>str.strip()\<close> removes, from both ends, the characters for which \<open>str.isspace\<close> holds;
  below 256 these are the code points 9 to 13, 28 to 32, 0x85 and 0xA0.
\<close>

definition is_space :: "char \<Rightarrow> bool" where
  "is_space c \<longleftrightarrow> c \<in> {CHR 0x09, CHR 0x0A, CHR 0x0B, CHR 0x0C, CHR 0x0D,
                        CHR 0x1C, CHR 0x1D, CHR 0x1E, CHR 0x1F, CHR 0x20, CHR 0x85, CHR 0xA0}"

definition strip :: "string \<Rightarrow> string" where
  "strip s = rev (dropWhile is_space (rev (dropWhile is_space s)))"

text \<open>\<open>s.endswith(suf)\<close>.\<close>

definition endswith :: "string \<Rightarrow> string \<Rightarrow> bool" where
  "endswith s suf \<longleftrightarrow> length suf \<le> length s \<and> drop (length s - length suf) s = suf"

text \<open>\<open>s or ""\<close> for an argument that is \<open>None\<close> or a \<open>str\<close>.\<close>

definition or_empty :: "string option \<Rightarrow> string" where
  "or_empty s = (case s of None \<Rightarrow> [] | Some v \<Rightarrow> if v \<noteq> [] then v else [])"

section \<open>Field extraction\<close>

text \<open>
  What \<open>resp.xpath(xp).get()\<close> can do: return the first match (a \<open>str\<close>), return \<open>None\<close>
  when nothing matches, or raise an exception derived from \<open>Exception\<close>.
\<close>

datatype error = ValueError | KeyError | DatabaseError | ProgrammingError | XPathError

datatype xp_result = Found string | Nothing | Raises error

text \<open>
  A response is seen through the queries the spider puts to it: its URL, the \<open>meta\<close>
  dictionary of the request it answers, and the outcome of \<open>xpath(xp).get()\<close> for each
  locator \<open>xp\<close>.
\<close>

datatype url = Abs string | Join url string

record response =
  resp_url :: url
  meta :: "string \<rightharpoonup> string"
  xpath_get :: "string \<Rightarrow> xp_result"

text \<open>The body of the \<open>try\<close> block of \<open>_get\<close>.\<close>

definition get_try :: "response \<Rightarrow> string \<Rightarrow> error + string" where
  "get_try resp xp =
     (case xpath_get resp xp of
        Raises e \<Rightarrow> Inl e
      | Nothing \<Rightarrow> Inr ''N/A''
      | Found v \<Rightarrow> Inr (if v \<noteq> [] then strip v else ''N/A''))"

text \<open>\<open>_get\<close>: the \<open>except Exception\<close> clause turns every error into the sentinel.\<close>

definition get :: "response \<Rightarrow> string \<Rightarrow> error + string" where
  "get resp xp = (case get_try resp xp of Inl e \<Rightarrow> Inr ''N/A'' | Inr v \<Rightarrow> Inr v)"

text \<open>\<open>_with_pct\<close>.\<close>

definition with_pct :: "string option \<Rightarrow> string" where
  "with_pct s0 =
     (let s = strip (or_empty s0) in
      if s = [] \<or> s = ''N/A'' then ''N/A''
      else if endswith s ''%'' then s else s @ ''%'')"


section \<open>The store\<close>

text \<open>
  One buffered tuple, in the order of the tuple appended by \<open>parse_detail\<close>, which is also the
  order of the column list of the \<open>INSERT\<close> statement: position \<open>i\<close> of the tuple fills column
  \<open>i\<close> of the row. \<open>self.target_date\<close> is \<open>None\<close> or a \<open>str\<close>; \<open>None\<close> is stored as SQL \<open>NULL\<close>.
\<close>

record snapshot =
  r_target_date :: "string option"
  r_code :: string
  r_sector :: string
  r_name :: string
  r_price_text :: string
  r_pe :: string
  r_dividend_yield :: string
  r_pb :: string
  r_roe :: string
  r_earning_yield :: string

text \<open>
  \<open>UNIQUE(code, target_date)\<close>: two rows conflict when both columns are equal; a \<open>NULL\<close> is
  distinct from every value, itself included.
\<close>

definition same_key :: "snapshot \<Rightarrow> snapshot \<Rightarrow> bool" where
  "same_key a b \<longleftrightarrow>
     r_code a = r_code b \<and> r_target_date a = r_target_date b \<and> r_target_date a \<noteq> None"

text \<open>\<open>INSERT OR REPLACE\<close> of one row: the conflicting rows are deleted, then the row is inserted.\<close>

definition insert_or_replace :: "snapshot \<Rightarrow> snapshot list \<Rightarrow> snapshot list" where
  "insert_or_replace r t = filter (\<lambda>x. \<not> same_key x r) t @ [r]"

text \<open>\<open>executemany\<close> runs the statement once for each tuple, in order.\<close>

definition upsert_many :: "snapshot list \<Rightarrow> snapshot list \<Rightarrow> snapshot list" where
  "upsert_many rs t = foldl (\<lambda>t r. insert_or_replace r t) t rs"

datatype db_call = Connect | Execute string | Executemany "snapshot list" | Commit | Close

text \<open>
  The database behind \<open>self.conn\<close>: whether the table exists, the committed rows, the rows the
  connection sees (committed or not), whether the connection is open, and the calls made
  on it so far.
\<close>

record db =
  has_table :: bool
  durable :: "snapshot list"
  working :: "snapshot list"
  is_open :: bool
  calls :: "db_call list"

text \<open>
  What the database does to the calls of one step: \<open>executemany\<close> may raise after a number
  of rows, \<open>commit\<close> may raise, \<open>close\<close> may raise.
\<close>

record env =
  executemany_fails_at :: "nat option"
  commit_fails :: bool
  close_fails :: bool

definition no_fault :: env where
  "no_fault = \<lparr>executemany_fails_at = None, commit_fails = False, close_fails = False\<rparr>"

definition db_connect :: "db \<Rightarrow> db" where
  "db_connect d = d\<lparr>is_open := True, working := durable d, calls := calls d @ [Connect]\<rparr>"

definition db_execute :: "string \<Rightarrow> db \<Rightarrow> db" where
  "db_execute stmt d = d\<lparr>calls := calls d @ [Execute stmt]\<rparr>"

definition db_create_table :: "db \<Rightarrow> db" where
  "db_create_table d =
     d\<lparr>has_table := True, calls := calls d @ [Execute ''CREATE TABLE IF NOT EXISTS metrics_snapshot'']\<rparr>"

definition db_executemany :: "env \<Rightarrow> snapshot list \<Rightarrow> db \<Rightarrow> error option \<times> db" where
  "db_executemany e rs d =
     (let d1 = d\<lparr>calls := calls d @ [Executemany rs]\<rparr> in
      if \<not> is_open d then (Some ProgrammingError, d1)
      else if \<not> has_table d then (Some DatabaseError, d1)
      else case executemany_fails_at e of
             Some k \<Rightarrow> (Some DatabaseError, d1\<lparr>working := upsert_many (take k rs) (working d)\<rparr>)
           | None \<Rightarrow> (None, d1\<lparr>working := upsert_many rs (working d)\<rparr>))"

definition db_commit :: "env \<Rightarrow> db \<Rightarrow> error option \<times> db" where
  "db_commit e d =
     (let d1 = d\<lparr>calls := calls d @ [Commit]\<rparr> in
      if \<not> is_open d then (Some ProgrammingError, d1)
      else if commit_fails e then (Some DatabaseError, d1)
      else (None, d1\<lparr>durable := working d\<rparr>))"

text \<open>Closing rolls back what was not committed.\<close>

definition db_close :: "env \<Rightarrow> db \<Rightarrow> error option \<times> db" where
  "db_close e d =
     (let d1 = d\<lparr>calls := calls d @ [Close]\<rparr> in
      if close_fails e then (Some DatabaseError, d1)
      else (None, d1\<lparr>is_open := False, working := durable d\<rparr>))"

section \<open>The spider\<close>

datatype log_line = LogParse nat nat | LogDbCommit nat | LogClose string nat nat

record spider =
  target_date :: "string option"
  batch_size :: int
  conn :: db
  buf :: "snapshot list"
  queued :: nat
  parsed :: nat
  logged :: "log_line list"

text \<open>\<open>_init_db\<close>.\<close>

definition init_db :: "db \<Rightarrow> db" where
  "init_db d = snd (db_commit no_fault (db_create_table d))"

text \<open>
  \<open>__init__\<close>, on a database that can be opened. The argument \<open>batch_size\<close> is given by what
  \<open>int(batch_size)\<close> makes of it: \<open>None\<close> when the argument is \<open>None\<close> or \<open>int\<close> raises.
\<close>

definition init :: "string option \<Rightarrow> int option \<Rightarrow> db \<Rightarrow> spider" where
  "init td bs d0 =
     (let b = (case bs of None \<Rightarrow> 50 | Some n \<Rightarrow> if n = 0 then 50 else if n \<le> 0 then 50 else n);
          d1 = db_connect d0;
          d2 = db_execute ''PRAGMA journal_mode=WAL;'' d1;
          d3 = db_execute ''PRAGMA synchronous=NORMAL;'' d2;
          d4 = snd (db_commit no_fault d3);
          d5 = init_db d4
      in \<lparr>target_date = td, batch_size = b, conn = d5, buf = [], queued = 0, parsed = 0,
          logged = []\<rparr>)"

datatype callback = ParseList | ParseDetail

record request =
  req_url :: url
  req_callback :: callback
  req_meta :: "string \<rightharpoonup> string"
  dont_filter :: bool

definition start_urls :: "url list" where
  "start_urls = [Abs ''https://example.com/markets/list/'']"

text \<open>
  \<open>start_requests\<close>. The parameter \<open>strptime\<close> says whether
  \<open>datetime.strptime(d, "%Y%m%d")\<close> returns (otherwise it raises \<open>ValueError\<close>).
\<close>

definition start_requests :: "(string \<Rightarrow> bool) \<Rightarrow> spider \<Rightarrow> error + request list" where
  "start_requests strptime s =
     (case target_date s of
        None \<Rightarrow> Inl ValueError
      | Some d \<Rightarrow>
          if d = [] then Inl ValueError
          else if \<not> strptime d then Inl ValueError
          else Inr (map (\<lambda>u. \<lparr>req_url = u, req_callback = ParseList, req_meta = Map.empty,
                                dont_filter = True\<rparr>) start_urls))"

text \<open>
  A listing page as \<open>parse_list\<close> queries it: for each \<open>tr\<close> of the table the first text of
  the first cell, the first text of the second cell and the first link of the second cell
  (each \<open>None\<close> when absent), and the link of the anchor labelled \<open>Next\<close>.
\<close>

record row =
  td1_text :: "string option"
  td2_text :: "string option"
  td2_href :: "string option"

record listing =
  list_url :: url
  rows :: "row list"
  next_href :: "string option"

text \<open>The loop over the rows of \<open>parse_list\<close>.\<close>

fun parse_rows :: "url \<Rightarrow> row list \<Rightarrow> spider \<Rightarrow> request list \<times> spider" where
  "parse_rows u [] s = ([], s)"
| "parse_rows u (r # rs) s =
     (case (td1_text r, td2_text r, td2_href r) of
        (Some code, Some name, Some detail_href) \<Rightarrow>
          if code \<noteq> [] \<and> name \<noteq> [] \<and> detail_href \<noteq> [] then
            (let s1 = s\<lparr>queued := queued s + 1\<rparr>;
                 req = \<lparr>req_url = Join u detail_href, req_callback = ParseDetail,
                        req_meta = [''code'' \<mapsto> code, ''name'' \<mapsto> name], dont_filter = True\<rparr>
             in case parse_rows u rs s1 of (reqs, s2) \<Rightarrow> (req # reqs, s2))
          else parse_rows u rs s
      | _ \<Rightarrow> parse_rows u rs s)"

definition parse_list :: "listing \<Rightarrow> spider \<Rightarrow> request list \<times> spider" where
  "parse_list resp s =
     (case parse_rows (list_url resp) (rows resp) s of
        (reqs, s1) \<Rightarrow>
          (reqs @ (case next_href resp of
                     None \<Rightarrow> []
                   | Some next_page \<Rightarrow>
                       if next_page \<noteq> [] then
                         [\<lparr>req_url = Join (list_url resp) next_page, req_callback = ParseList,
                           req_meta = Map.empty, dont_filter = False\<rparr>]
                       else []),
           s1))"

text \<open>\<open>_flush\<close>.\<close>

definition flush :: "env \<Rightarrow> spider \<Rightarrow> error option \<times> spider" where
  "flush e s =
     (if buf s = [] then (None, s)
      else case db_executemany e (buf s) (conn s) of
             (Some err, d1) \<Rightarrow> (Some err, s\<lparr>conn := d1\<rparr>)
           | (None, d1) \<Rightarrow>
               (case db_commit e d1 of
                  (Some err, d2) \<Rightarrow> (Some err, s\<lparr>conn := d2\<rparr>)
                | (None, d2) \<Rightarrow>
                    (None, s\<lparr>conn := d2, logged := logged s @ [LogDbCommit (length (buf s))],
                             buf := []\<rparr>)))"

text \<open>The locators of \<open>parse_detail\<close>.\<close>

definition xp_sector :: string where
  \<open>xp_sector = ''//*[@id="main"]//span[@class="category"]/text()''\<close>

definition xp_price :: string where
  \<open>xp_price = ''//*[@id="main"]//div[@class="price"]/text()''\<close>

definition xp_pe :: string where
  \<open>xp_pe = ''//*[@id="metrics"]//li[@data-key="pe"]/span/text()''\<close>

definition xp_div_yld :: string where
  \<open>xp_div_yld = ''//*[@id="metrics"]//li[@data-key="div_yld"]/span/text()''\<close>

definition xp_pb :: string where
  \<open>xp_pb = ''//*[@id="metrics"]//li[@data-key="pb"]/span/text()''\<close>

definition xp_roe :: string where
  \<open>xp_roe = ''//*[@id="metrics"]//li[@data-key="roe"]/span/text()''\<close>

definition xp_earn_yld :: string where
  \<open>xp_earn_yld = ''//*[@id="metrics"]//li[@data-key="earn_yld"]/span/text()''\<close>

text \<open>The tuple built by \<open>parse_detail\<close> from the seven extractions.\<close>

definition build :: "string option \<Rightarrow> string \<Rightarrow> string \<Rightarrow> response \<Rightarrow> error + snapshot" where
  "build td code name resp =
     (case get resp xp_sector of Inl e \<Rightarrow> Inl e | Inr sector \<Rightarrow>
     (case get resp xp_price of Inl e \<Rightarrow> Inl e | Inr price_text \<Rightarrow>
     (case get resp xp_pe of Inl e \<Rightarrow> Inl e | Inr pe \<Rightarrow>
     (case get resp xp_div_yld of Inl e \<Rightarrow> Inl e | Inr dy \<Rightarrow>
     (case get resp xp_pb of Inl e \<Rightarrow> Inl e | Inr pb \<Rightarrow>
     (case get resp xp_roe of Inl e \<Rightarrow> Inl e | Inr roe \<Rightarrow>
     (case get resp xp_earn_yld of Inl e \<Rightarrow> Inl e | Inr ey \<Rightarrow>
        Inr \<lparr>r_target_date = td, r_code = code, r_sector = sector, r_name = name,
             r_price_text = price_text, r_pe = pe, r_dividend_yield = with_pct (Some dy),
             r_pb = pb, r_roe = with_pct (Some roe), r_earning_yield = with_pct (Some ey)\<rparr>)))))))"

text \<open>\<open>parse_detail\<close>: the state is returned also when the step raises.\<close>

definition parse_detail :: "env \<Rightarrow> response \<Rightarrow> spider \<Rightarrow> error option \<times> spider" where
  "parse_detail e resp s =
     (case meta resp ''code'' of None \<Rightarrow> (Some KeyError, s) | Some code \<Rightarrow>
     (case meta resp ''name'' of None \<Rightarrow> (Some KeyError, s) | Some name \<Rightarrow>
     (case build (target_date s) code name resp of Inl err \<Rightarrow> (Some err, s) | Inr rec \<Rightarrow>
        (let s1 = s\<lparr>buf := buf s @ [rec], parsed := parsed s + 1\<rparr> in
         case (if int (length (buf s1)) \<ge> batch_size s1 then flush e s1 else (None, s1)) of
           (Some err, s2) \<Rightarrow> (Some err, s2)
         | (None, s2) \<Rightarrow>
             (None, if parsed s2 mod 50 = 0
                    then s2\<lparr>logged := logged s2 @ [LogParse (parsed s2) (queued s2)]\<rparr>
                    else s2)))))"

text \<open>
  \<open>closed\<close>: the \<open>finally\<close> clause closes the connection whether \<open>_flush\<close> raised or not,
  and an exception of \<open>close\<close> is dropped; the closing line is logged when \<open>_flush\<close> returned.
\<close>

definition closed :: "string \<Rightarrow> env \<Rightarrow> spider \<Rightarrow> error option \<times> spider" where
  "closed reason e s =
     (case flush e s of
        (r, s1) \<Rightarrow>
          (let s2 = s1\<lparr>conn := snd (db_close e (conn s1))\<rparr> in
           case r of
             Some err \<Rightarrow> (Some err, s2)
           | None \<Rightarrow> (None, s2\<lparr>logged := logged s2 @ [LogClose reason (queued s2) (parsed s2)]\<rparr>)))"

text \<open>
  The detail pages of a run, one call of \<open>parse_detail\<close> each; a call that raises is logged
  by the framework and the run goes on with the state the call left.
\<close>

fun parse_details :: "(env \<times> response) list \<Rightarrow> spider \<Rightarrow> spider" where
  "parse_details [] s = s"
| "parse_details ((e, resp) # rest) s = parse_details rest (snd (parse_detail e resp s))"

text \<open>The tuple that \<open>parse_detail\<close> appends for a response, when it gets as far as appending.\<close>

definition record_of :: "string option \<Rightarrow> response \<Rightarrow> snapshot option" where
  "record_of td resp =
     (case meta resp ''code'' of None \<Rightarrow> None | Some code \<Rightarrow>
     (case meta resp ''name'' of None \<Rightarrow> None | Some name \<Rightarrow>
     (case build td code name resp of Inl err \<Rightarrow> None | Inr rec \<Rightarrow> Some rec)))"

section \<open>Sample inputs\<close>

text \<open>A detail page with some of the fields, a query that raises and an empty match.\<close>

definition r1 :: response where
  "r1 = \<lparr>resp_url = Abs ''u'', meta = [''code'' \<mapsto> ''1301'', ''name'' \<mapsto> ''Acme''],
          xpath_get = (\<lambda>xp. if xp = xp_pe then Found '' 12.5 '' else if xp = xp_roe then Found ''8.1''
                         else if xp = xp_pb then Raises XPathError else if xp = xp_sector then Found [] else Nothing)\<rparr>"

text \<open>Two detail pages on which no locator matches, and the tuples built from them.\<close>

definition resp_a :: response where
  "resp_a = \<lparr>resp_url = Abs ''https://example.com/markets/1301'',
              meta = [''code'' \<mapsto> ''1301'', ''name'' \<mapsto> ''Acme''],
              xpath_get = (\<lambda>xp. Nothing)\<rparr>"

definition resp_b :: response where
  "resp_b = \<lparr>resp_url = Abs ''https://example.com/markets/1302'',
              meta = [''code'' \<mapsto> ''1302'', ''name'' \<mapsto> ''Bolt''],
              xpath_get = (\<lambda>xp. Nothing)\<rparr>"

definition rec_a :: snapshot where
  "rec_a = \<lparr>r_target_date = Some ''20240115'', r_code = ''1301'', r_sector = ''N/A'',
             r_name = ''Acme'', r_price_text = ''N/A'', r_pe = ''N/A'', r_dividend_yield = ''N/A'',
             r_pb = ''N/A'', r_roe = ''N/A'', r_earning_yield = ''N/A''\<rparr>"

definition rec_b :: snapshot where
  "rec_b = rec_a\<lparr>r_code := ''1302'', r_name := ''Bolt''\<rparr>"

text \<open>
  Table rows, a database file that was never opened, and an open database holding an older
  row for the key of \<open>rec1\<close>.
\<close>

definition rec1 :: snapshot where
  "rec1 = \<lparr>r_target_date = Some ''20240115'', r_code = ''1301'', r_sector = ''Foods'',
            r_name = ''Acme'', r_price_text = ''1,200'', r_pe = ''12.5'', r_dividend_yield = ''2.1%'',
            r_pb = ''1.4'', r_roe = ''8.1%'', r_earning_yield = ''N/A''\<rparr>"

definition rec1_old :: snapshot where
  "rec1_old = rec1\<lparr>r_price_text := ''1,100'', r_pe := ''N/A''\<rparr>"

definition rec2 :: snapshot where
  "rec2 = rec1\<lparr>r_code := ''1302'', r_name := ''Bolt''\<rparr>"

definition db_file :: db where
  "db_file = \<lparr>has_table = False, durable = [], working = [], is_open = False, calls = []\<rparr>"

definition db_ready :: db where
  "db_ready = \<lparr>has_table = True, durable = [rec1_old, rec2], working = [rec1_old, rec2],
               is_open = True, calls = []\<rparr>"

text \<open>Spiders: one with a pending tuple, and freshly constructed ones with thresholds 2 and 1.\<close>

definition sp1 :: spider where
  "sp1 = \<lparr>target_date = Some ''20240115'', batch_size = 2, conn = db_ready, buf = [rec1],
           queued = 3, parsed = 1, logged = []\<rparr>"

definition sp0 :: spider where
  "sp0 = init (Some ''20240115'') (Some 2) db_file"

definition sp_one :: spider where
  "sp_one = init (Some ''20240115'') (Some 1) db_file"

text \<open>A database on which \<open>executemany\<close> raises before the first row.\<close>

definition exec_fault :: env where
  "exec_fault = \<lparr>executemany_fails_at = Some 0, commit_fails = False, close_fails = False\<rparr>"

text \<open>A listing page whose second row has no link.\<close>

definition row_ok :: row where
  "row_ok = \<lparr>td1_text = Some ''1301'', td2_text = Some ''Acme'', td2_href = Some ''/markets/1301''\<rparr>"

definition row_nolink :: row where
  "row_nolink = \<lparr>td1_text = Some ''1400'', td2_text = Some ''Delisted'', td2_href = None\<rparr>"

definition row_ok2 :: row where
  "row_ok2 = \<lparr>td1_text = Some ''1302'', td2_text = Some ''Bolt'', td2_href = Some ''/markets/1302''\<rparr>"

definition page1 :: listing where
  "page1 = \<lparr>list_url = Abs ''https://example.com/markets/list/'',
             rows = [row_ok, row_nolink, row_ok2], next_href = Some ''?page=2''\<rparr>"

text \<open>A date check that accepts exactly eight digits, to stand for \<open>strptime\<close> in examples.\<close>

definition strict_date :: "string \<Rightarrow> bool" where
  "strict_date d \<longleftrightarrow> length d = 8 \<and> list_all (\<lambda>c. c \<in> set ''0123456789'') d"

section \<open>Trimming\<close>

lemma dropWhile_id: "xs = [] \<or> \<not> P (hd xs) \<Longrightarrow> dropWhile P xs = xs"
  by (cases xs) auto

lemma hd_dropWhile_not: "dropWhile P xs \<noteq> [] \<Longrightarrow> \<not> P (hd (dropWhile P xs))"
  by (simp add: hd_dropWhile)

lemma dropWhile_rev_hd:
  assumes "dropWhile P (rev xs) \<noteq> []"
  shows "hd (rev (dropWhile P (rev xs))) = hd xs"
proof -
  obtain zs where "rev xs = zs @ dropWhile P (rev xs)"
    by (metis takeWhile_dropWhile_id)
  then have "rev (rev xs) = rev (zs @ dropWhile P (rev xs))" by (rule arg_cong)
  then have "xs = rev (dropWhile P (rev xs)) @ rev zs" by (simp only: rev_rev_ident rev_append)
  moreover have "rev (dropWhile P (rev xs)) \<noteq> []" using assms by (simp only: rev_is_Nil_conv not_False_eq_True)
  ultimately show ?thesis by (metis hd_append2)
qed

lemma strip_ends:
  assumes "strip s \<noteq> []"
  shows "\<not> is_space (hd (strip s))" and "\<not> is_space (last (strip s))"
proof -
  define a where "a = dropWhile is_space s"
  define b where "b = dropWhile is_space (rev a)"
  have sb: "strip s = rev b" by (simp add: strip_def a_def b_def)
  with assms have b: "b \<noteq> []" by simp
  then have hb: "\<not> is_space (hd b)" unfolding b_def by (rule hd_dropWhile_not)
  have a: "a \<noteq> []"
  proof
    assume "a = []"
    then have "b = []" by (simp add: b_def)
    with b show False by simp
  qed
  then have ha: "\<not> is_space (hd a)" unfolding a_def by (rule hd_dropWhile_not)
  show "\<not> is_space (last (strip s))"
    using hb b by (simp add: sb last_rev)
  have "hd (rev b) = hd a" using b unfolding b_def by (rule dropWhile_rev_hd)
  with ha show "\<not> is_space (hd (strip s))" by (simp add: sb)
qed

lemma strip_fixed:
  assumes "s \<noteq> []" "\<not> is_space (hd s)" "\<not> is_space (last s)"
  shows "strip s = s"
proof -
  have 1: "dropWhile is_space s = s" using assms by (simp add: dropWhile_id)
  have "rev s \<noteq> []" using assms by simp
  moreover have "hd (rev s) = last s" using assms by (simp add: hd_rev)
  ultimately have 2: "dropWhile is_space (rev s) = rev s"
    using assms by (simp add: dropWhile_id)
  show ?thesis by (simp add: strip_def 1 2)
qed

lemma strip_idem: "strip (strip s) = strip s"
proof (cases "strip s = []")
  case True
  have "strip [] = []" by (simp add: strip_def)
  with True show ?thesis by simp
next
  case False
  then show ?thesis using strip_ends[OF False] by (simp add: strip_fixed)
qed

lemma strip_NA: "strip ''N/A'' = ''N/A''"
  by (simp add: strip_def is_space_def)

lemma endswith_pct: "endswith s ''%'' \<longleftrightarrow> s \<noteq> [] \<and> last s = CHR ''%''"
proof (cases s rule: rev_cases)
  case Nil
  then show ?thesis by (simp add: endswith_def)
next
  case (snoc ys y)
  then show ?thesis by (auto simp add: endswith_def)
qed

lemma strip_snoc_pct:
  assumes "t \<noteq> []" "\<not> is_space (hd t)"
  shows "strip (t @ ''%'') = t @ ''%''"
proof (rule strip_fixed)
  show "t @ ''%'' \<noteq> []" by simp
  show "\<not> is_space (hd (t @ ''%''))" using assms by simp
  show "\<not> is_space (last (t @ ''%''))" by (simp add: is_space_def)
qed

lemma with_pct_idem: "with_pct (Some (with_pct s0)) = with_pct s0"
proof -
  let ?t = "strip (or_empty s0)"
  consider (na) "?t = [] \<or> ?t = ''N/A''"
    | (pct) "?t \<noteq> []" "?t \<noteq> ''N/A''" "endswith ?t ''%''"
    | (app) "?t \<noteq> []" "?t \<noteq> ''N/A''" "\<not> endswith ?t ''%''"
    by blast
  then show ?thesis
  proof cases
    case na
    then have "with_pct s0 = ''N/A''" by (auto simp add: with_pct_def)
    then show ?thesis by (simp add: with_pct_def or_empty_def strip_NA)
  next
    case pct
    then have r: "with_pct s0 = ?t" by (simp add: with_pct_def)
    have "strip (or_empty (Some ?t)) = ?t" using pct by (simp add: or_empty_def strip_idem)
    then have "with_pct (Some ?t) = ?t" using pct by (simp add: with_pct_def)
    with r show ?thesis by simp
  next
    case app
    then have r: "with_pct s0 = ?t @ ''%''" by (simp add: with_pct_def)
    have s: "strip (?t @ ''%'') = ?t @ ''%''"
      using app strip_ends(1)[of "or_empty s0"] by (simp add: strip_snoc_pct)
    have "or_empty (Some (?t @ ''%'')) = ?t @ ''%''" by (simp add: or_empty_def)
    then have "with_pct (Some (?t @ ''%'')) = ?t @ ''%''"
      using s by (simp add: with_pct_def Let_def endswith_pct)
    with r show ?thesis by simp
  qed
qed

lemma with_pct_NA: "with_pct (Some ''N/A'') = ''N/A''"
  by (simp add: with_pct_def or_empty_def strip_NA)

section \<open>Field extraction and percentage normalisation\<close>

text \<open>
  C8. \<open>_get\<close> never raises: whatever the document does with the locator, the result is a string.
  It is the sentinel when the locator matches nothing, when the query raises, and when the
  match is the empty string; a non-empty match is returned trimmed.
\<close>

theorem get_total_sentinel:
  "(xpath_get resp xp = Nothing \<longrightarrow> get resp xp = Inr ''N/A'') \<and>
   (\<forall>e. xpath_get resp xp = Raises e \<longrightarrow> get resp xp = Inr ''N/A'') \<and>
   (xpath_get resp xp = Found [] \<longrightarrow> get resp xp = Inr ''N/A'') \<and>
   (\<forall>v. v \<noteq> [] \<longrightarrow> xpath_get resp xp = Found v \<longrightarrow> get resp xp = Inr (strip v)) \<and>
   (\<exists>v. get resp xp = Inr v)"
  by (cases "xpath_get resp xp") (simp_all add: get_def get_try_def)

theorem get_total_sentinel_witness:
  "get r1 xp_pe = Inr ''12.5'' \<and> get r1 xp_pb = Inr ''N/A'' \<and> get r1 xp_price = Inr ''N/A''
   \<and> get r1 xp_sector = Inr ''N/A''"
  using get_total_sentinel [of r1 xp_pe] get_total_sentinel [of r1 xp_pb]
    get_total_sentinel [of r1 xp_price] get_total_sentinel [of r1 xp_sector]
  by (simp add: r1_def xp_pe_def xp_pb_def xp_price_def xp_sector_def xp_roe_def strip_def is_space_def)

text \<open>
  C3, as the code has it. \<open>_with_pct\<close> first trims its argument (\<open>None\<close> counting as empty).
  When the trimmed value is empty or the sentinel the result is the sentinel, so the
  sentinel is returned unchanged and an empty value becomes the sentinel. Otherwise the result is the
  trimmed value, with \<open>%\<close> appended unless the trimmed value already ends with \<open>%\<close>.
\<close>

theorem with_pct_cases:
  "with_pct None = ''N/A'' \<and> with_pct (Some []) = ''N/A'' \<and> with_pct (Some ''N/A'') = ''N/A'' \<and>
   (strip (or_empty s0) = [] \<or> strip (or_empty s0) = ''N/A'' \<longrightarrow> with_pct s0 = ''N/A'') \<and>
   (strip (or_empty s0) \<noteq> [] \<and> strip (or_empty s0) \<noteq> ''N/A'' \<and> endswith (strip (or_empty s0)) ''%''
      \<longrightarrow> with_pct s0 = strip (or_empty s0)) \<and>
   (strip (or_empty s0) \<noteq> [] \<and> strip (or_empty s0) \<noteq> ''N/A'' \<and> \<not> endswith (strip (or_empty s0)) ''%''
      \<longrightarrow> with_pct s0 = strip (or_empty s0) @ ''%'')"
proof -
  have "with_pct None = ''N/A''" "with_pct (Some []) = ''N/A''"
    by (simp_all add: with_pct_def or_empty_def strip_def)
  moreover have "with_pct (Some ''N/A'') = ''N/A''"
    by (simp add: with_pct_def or_empty_def strip_NA)
  ultimately show ?thesis
    by (simp add: with_pct_def Let_def)
qed

theorem with_pct_cases_witness:
  "with_pct (Some '' 3.2 '') = ''3.2%'' \<and> with_pct (Some ''3.2%'') = ''3.2%'' \<and>
   with_pct (Some '' N/A'') = ''N/A''"
  using with_pct_cases [of "Some '' 3.2 ''"] with_pct_cases [of "Some ''3.2%''"]
    with_pct_cases [of "Some '' N/A''"]
  by (simp add: or_empty_def strip_def is_space_def endswith_def)

text \<open>The empty string is not returned unchanged.\<close>

theorem with_pct_empty_counterexample:
  "with_pct (Some []) = ''N/A'' \<and> with_pct (Some []) \<noteq> []"
  by (simp add: with_pct_def or_empty_def strip_def)

text \<open>
  C4, as the code has it. When the trimmed input is neither empty nor the sentinel, the output
  ends with \<open>%\<close>; otherwise the output is the sentinel. Normalising twice is the same
  as normalising once, for every input.
\<close>

theorem with_pct_pct_idem:
  "(strip (or_empty s0) \<noteq> [] \<and> strip (or_empty s0) \<noteq> ''N/A'' \<longrightarrow> endswith (with_pct s0) ''%'') \<and>
   (strip (or_empty s0) = [] \<or> strip (or_empty s0) = ''N/A'' \<longrightarrow> with_pct s0 = ''N/A'') \<and>
   with_pct (Some (with_pct s0)) = with_pct s0"
  by (simp add: with_pct_idem) (simp add: with_pct_def Let_def endswith_pct)

theorem with_pct_pct_idem_witness:
  "endswith (with_pct (Some '' 3.2 '')) ''%'' \<and> with_pct (Some ''   '') = ''N/A'' \<and>
   with_pct (Some (with_pct (Some '' 3.2 ''))) = with_pct (Some '' 3.2 '')"
  using with_pct_pct_idem [of "Some '' 3.2 ''"] with_pct_pct_idem [of "Some ''   ''"]
  by (simp add: or_empty_def strip_def is_space_def)

text \<open>The empty string and a blank string are not the sentinel, and their output does not end with \<open>%\<close>.\<close>

theorem with_pct_suffix_counterexample:
  "[] \<noteq> ''N/A'' \<and> \<not> endswith (with_pct (Some [])) ''%'' \<and>
   ''  '' \<noteq> ''N/A'' \<and> \<not> endswith (with_pct (Some ''  '')) ''%''"
  by (simp add: with_pct_def or_empty_def strip_def is_space_def endswith_def)

section \<open>The store: insert or replace\<close>

lemma same_key_refl: "r_target_date r \<noteq> None \<Longrightarrow> same_key r r"
  by (simp add: same_key_def)

lemma upsert_many_single: "upsert_many [r] t = insert_or_replace r t"
  by (simp add: upsert_many_def)

lemma insert_or_replace_twice:
  "r_target_date r \<noteq> None \<Longrightarrow> insert_or_replace r (insert_or_replace r t) = insert_or_replace r t"
  by (simp add: insert_or_replace_def same_key_refl)

lemma key_rows_insert_or_replace:
  "r_target_date r \<noteq> None \<Longrightarrow> filter (\<lambda>x. same_key x r) (insert_or_replace r t) = [r]"
  by (simp add: insert_or_replace_def same_key_refl)

text \<open>
  C7. Writing a record \<open>r\<close> (with a target date) twice through \<open>executemany\<close> succeeds both
  times and leaves exactly one row with the code and target date of \<open>r\<close>, and that row is \<open>r\<close>
  itself, whatever the table held before; the second write changes nothing.
\<close>

theorem upsert_twice_one_row:
  assumes "r_target_date r \<noteq> None" "is_open d" "has_table d"
  shows "fst (db_executemany no_fault [r] (snd (db_executemany no_fault [r] d))) = None \<and>
         filter (\<lambda>x. r_code x = r_code r \<and> r_target_date x = r_target_date r)
           (working (snd (db_executemany no_fault [r] (snd (db_executemany no_fault [r] d))))) = [r] \<and>
         working (snd (db_executemany no_fault [r] (snd (db_executemany no_fault [r] d)))) =
           working (snd (db_executemany no_fault [r] d)) \<and>
         filter (\<lambda>x. r_code x = r_code r \<and> r_target_date x = r_target_date r)
           (upsert_many [r] (upsert_many [r] t)) = [r]"
proof -
  have k: "(\<lambda>x. r_code x = r_code r \<and> r_target_date x = r_target_date r) = (\<lambda>x. same_key x r)"
    using assms(1) by (auto simp add: same_key_def fun_eq_iff)
  have w: "working (snd (db_executemany no_fault [r] d)) = insert_or_replace r (working d)"
    using assms by (simp add: db_executemany_def no_fault_def upsert_many_single)
  have w2: "working (snd (db_executemany no_fault [r] (snd (db_executemany no_fault [r] d)))) =
            insert_or_replace r (insert_or_replace r (working d))"
    using assms by (simp add: db_executemany_def no_fault_def upsert_many_single)
  have f: "fst (db_executemany no_fault [r] (snd (db_executemany no_fault [r] d))) = None"
    using assms by (simp add: db_executemany_def no_fault_def)
  show ?thesis
    using assms(1)
    by (simp add: k w w2 f upsert_many_single insert_or_replace_twice key_rows_insert_or_replace)
qed

theorem upsert_twice_one_row_witness:
  "r_target_date rec1 \<noteq> None \<and> is_open db_ready \<and> has_table db_ready \<and>
   fst (db_executemany no_fault [rec1] (snd (db_executemany no_fault [rec1] db_ready))) = None \<and>
   filter (\<lambda>x. r_code x = r_code rec1 \<and> r_target_date x = r_target_date rec1)
     (working (snd (db_executemany no_fault [rec1] (snd (db_executemany no_fault [rec1] db_ready))))) = [rec1] \<and>
   working (snd (db_executemany no_fault [rec1] (snd (db_executemany no_fault [rec1] db_ready)))) =
     working (snd (db_executemany no_fault [rec1] db_ready)) \<and>
   filter (\<lambda>x. r_code x = r_code rec1 \<and> r_target_date x = r_target_date rec1)
     (upsert_many [rec1] (upsert_many [rec1] [rec1_old, rec2])) = [rec1]"
proof -
  have h: "r_target_date rec1 \<noteq> None" "is_open db_ready" "has_table db_ready"
    by (simp_all add: rec1_def db_ready_def)
  show ?thesis
    using h upsert_twice_one_row [OF h, of "[rec1_old, rec2]"] by blast
qed

section \<open>Flushing and closing\<close>

text \<open>
  C6. \<open>_flush\<close> does nothing on an empty buffer. On a non-empty buffer it makes one
  \<open>executemany\<close> call with all pending tuples, commits, and only then clears the buffer:
  whenever the write raises, the buffer still holds every pending tuple and nothing was committed.
\<close>

theorem flush_cases:
  "(buf s = [] \<longrightarrow> flush e s = (None, s)) \<and>
   (buf s \<noteq> [] \<and> is_open (conn s) \<and> has_table (conn s) \<and>
      executemany_fails_at e = None \<and> \<not> commit_fails e \<longrightarrow>
      fst (flush e s) = None \<and> buf (snd (flush e s)) = [] \<and>
      calls (conn (snd (flush e s))) = calls (conn s) @ [Executemany (buf s), Commit] \<and>
      durable (conn (snd (flush e s))) = upsert_many (buf s) (working (conn s))) \<and>
   (buf s \<noteq> [] \<and> (\<not> is_open (conn s) \<or> \<not> has_table (conn s) \<or>
      executemany_fails_at e \<noteq> None \<or> commit_fails e) \<longrightarrow>
      fst (flush e s) \<noteq> None \<and> buf (snd (flush e s)) = buf s \<and>
      durable (conn (snd (flush e s))) = durable (conn s)) \<and>
   (fst (flush e s) \<noteq> None \<longrightarrow> buf (snd (flush e s)) = buf s)"
  by (auto simp add: flush_def db_executemany_def db_commit_def Let_def split: option.splits)

theorem flush_cases_witness:
  "flush no_fault (sp1\<lparr>buf := []\<rparr>) = (None, sp1\<lparr>buf := []\<rparr>) \<and>
   fst (flush no_fault sp1) = None \<and> buf (snd (flush no_fault sp1)) = [] \<and>
   calls (conn (snd (flush no_fault sp1))) = [Executemany [rec1], Commit] \<and>
   durable (conn (snd (flush no_fault sp1))) = [rec2, rec1] \<and>
   fst (flush exec_fault sp1) \<noteq> None \<and> buf (snd (flush exec_fault sp1)) = [rec1] \<and>
   durable (conn (snd (flush exec_fault sp1))) = [rec1_old, rec2]"
  using flush_cases [of "sp1\<lparr>buf := []\<rparr>" no_fault] flush_cases [of sp1 no_fault]
    flush_cases [of sp1 exec_fault]
  by (simp add: sp1_def db_ready_def no_fault_def exec_fault_def upsert_many_def
      insert_or_replace_def same_key_def rec1_def rec1_old_def rec2_def)

text \<open>
  C1. For every reason and whatever the database does, \<open>closed\<close> makes at most one
  \<open>executemany\<close> call, carrying the whole buffer (none when the buffer is empty), and then
  calls \<open>close\<close>, also when the write raised. When nothing fails the buffer ends empty, its
  tuples are committed and the connection is closed. The reason has no influence on any of this.
\<close>

theorem closed_flush_then_close:
  "calls (conn (snd (closed reason e s))) =
     calls (conn s) @
     (if buf s = [] then []
      else if is_open (conn s) \<and> has_table (conn s) \<and> executemany_fails_at e = None
           then [Executemany (buf s), Commit] else [Executemany (buf s)]) @ [Close] \<and>
   (\<not> close_fails e \<longrightarrow> \<not> is_open (conn (snd (closed reason e s)))) \<and>
   (is_open (conn s) \<and> has_table (conn s) \<and> executemany_fails_at e = None \<and> \<not> commit_fails e
      \<longrightarrow> fst (closed reason e s) = None) \<and>
   (fst (closed reason e s) = None \<longrightarrow>
      buf (snd (closed reason e s)) = [] \<and>
      durable (conn (snd (closed reason e s))) =
        (if buf s = [] then durable (conn s) else upsert_many (buf s) (working (conn s)))) \<and>
   conn (snd (closed reason e s)) = conn (snd (closed reason' e s)) \<and>
   buf (snd (closed reason e s)) = buf (snd (closed reason' e s)) \<and>
   fst (closed reason e s) = fst (closed reason' e s)"
  by (auto simp add: closed_def flush_def db_executemany_def db_commit_def db_close_def Let_def
      split: option.splits)

theorem closed_flush_then_close_witness:
  "calls (conn (snd (closed ''finished'' no_fault sp1))) = [Executemany [rec1], Commit, Close] \<and>
   \<not> is_open (conn (snd (closed ''finished'' no_fault sp1))) \<and>
   fst (closed ''finished'' no_fault sp1) = None \<and>
   buf (snd (closed ''finished'' no_fault sp1)) = [] \<and>
   durable (conn (snd (closed ''finished'' no_fault sp1))) = upsert_many [rec1] [rec1_old, rec2] \<and>
   calls (conn (snd (closed ''shutdown'' exec_fault sp1))) = [Executemany [rec1], Close] \<and>
   calls (conn (snd (closed ''finished'' no_fault (sp1\<lparr>buf := []\<rparr>)))) = [Close]"
proof -
  have c: "buf sp1 = [rec1]" "calls (conn sp1) = []" "is_open (conn sp1)" "has_table (conn sp1)"
    "working (conn sp1) = [rec1_old, rec2]"
    "executemany_fails_at no_fault = None" "\<not> commit_fails no_fault" "\<not> close_fails no_fault"
    "executemany_fails_at exec_fault \<noteq> None"
    by (simp_all add: sp1_def db_ready_def no_fault_def exec_fault_def)
  show ?thesis
    using closed_flush_then_close [of "''finished''" no_fault sp1 "''shutdown''"]
      closed_flush_then_close [of "''shutdown''" exec_fault sp1 "''finished''"]
      closed_flush_then_close [of "''finished''" no_fault "sp1\<lparr>buf := []\<rparr>" "''shutdown''"]
    by (auto simp add: c)
qed

section \<open>The threshold\<close>

lemma get_Inr: "\<exists>v. get resp xp = Inr v"
  by (simp add: get_def split: sum.splits)

lemma build_Inr: "\<exists>rec. build td code name resp = Inr rec"
proof -
  obtain a where a: "get resp xp_sector = Inr a" using get_Inr by blast
  obtain b where b: "get resp xp_price = Inr b" using get_Inr by blast
  obtain c where c: "get resp xp_pe = Inr c" using get_Inr by blast
  obtain d where d: "get resp xp_div_yld = Inr d" using get_Inr by blast
  obtain f where f: "get resp xp_pb = Inr f" using get_Inr by blast
  obtain g where g: "get resp xp_roe = Inr g" using get_Inr by blast
  obtain h where h: "get resp xp_earn_yld = Inr h" using get_Inr by blast
  show ?thesis by (simp add: build_def a b c d f g h)
qed

lemma parse_detail_rec:
  assumes "record_of (target_date s) resp = Some rec"
  shows "parse_detail e resp s =
     (let s1 = s\<lparr>buf := buf s @ [rec], parsed := parsed s + 1\<rparr> in
      case (if int (length (buf s1)) \<ge> batch_size s1 then flush e s1 else (None, s1)) of
        (Some err, s2) \<Rightarrow> (Some err, s2)
      | (None, s2) \<Rightarrow>
          (None, if parsed s2 mod 50 = 0
                 then s2\<lparr>logged := logged s2 @ [LogParse (parsed s2) (queued s2)]\<rparr>
                 else s2))"
  using assms
  by (simp add: parse_detail_def record_of_def split: option.splits sum.splits)

lemma parse_detail_below:
  assumes "record_of (target_date s) resp = Some rec"
    and "int (length (buf s)) + 1 < batch_size s"
  shows "fst (parse_detail e resp s) = None"
    and "buf (snd (parse_detail e resp s)) = buf s @ [rec]"
    and "conn (snd (parse_detail e resp s)) = conn s"
    and "batch_size (snd (parse_detail e resp s)) = batch_size s"
    and "target_date (snd (parse_detail e resp s)) = target_date s"
  using assms(2) by (simp_all add: parse_detail_rec [OF assms(1)] Let_def)

lemma parse_detail_at:
  assumes "record_of (target_date s) resp = Some rec"
    and "int (length (buf s)) + 1 \<ge> batch_size s"
    and "is_open (conn s)" "has_table (conn s)"
    and "executemany_fails_at e = None" "\<not> commit_fails e"
  shows "fst (parse_detail e resp s) = None"
    and "buf (snd (parse_detail e resp s)) = []"
    and "calls (conn (snd (parse_detail e resp s))) =
           calls (conn s) @ [Executemany (buf s @ [rec]), Commit]"
    and "durable (conn (snd (parse_detail e resp s))) = upsert_many (buf s @ [rec]) (working (conn s))"
  using assms(2-)
  by (simp_all add: parse_detail_rec [OF assms(1)] Let_def flush_def db_executemany_def db_commit_def)

lemma parse_details_snoc:
  "parse_details (steps @ [(e, resp)]) s = snd (parse_detail e resp (parse_details steps s))"
  by (induction steps arbitrary: s) auto

lemma parse_details_below:
  assumes "map (\<lambda>x. record_of (target_date s) (snd x)) steps = map Some recs"
    and "int (length (buf s)) + int (length steps) < batch_size s"
  shows "buf (parse_details steps s) = buf s @ recs \<and> conn (parse_details steps s) = conn s \<and>
         batch_size (parse_details steps s) = batch_size s \<and>
         target_date (parse_details steps s) = target_date s"
  using assms
proof (induction steps arbitrary: s recs)
  case Nil
  then show ?case by simp
next
  case (Cons x steps)
  obtain e resp where x: "x = (e, resp)" by (cases x)
  from Cons.prems(1) obtain rec recs' where recs: "recs = rec # recs'"
    and r: "record_of (target_date s) resp = Some rec"
    and rest: "map (\<lambda>x. record_of (target_date s) (snd x)) steps = map Some recs'"
    by (cases recs) (auto simp add: x)
  from Cons.prems(2) have lt: "int (length (buf s)) + 1 < batch_size s" by simp
  let ?s = "snd (parse_detail e resp s)"
  note st = parse_detail_below [OF r lt, of e]
  have "map (\<lambda>x. record_of (target_date ?s) (snd x)) steps = map Some recs'"
    using rest st by simp
  moreover have "int (length (buf ?s)) + int (length steps) < batch_size ?s"
    using Cons.prems(2) st by simp
  ultimately have "buf (parse_details steps ?s) = buf ?s @ recs' \<and>
      conn (parse_details steps ?s) = conn ?s \<and>
      batch_size (parse_details steps ?s) = batch_size ?s \<and>
      target_date (parse_details steps ?s) = target_date ?s"
    by (rule Cons.IH)
  then show ?case using st by (simp add: x recs)
qed

lemma record_of_resp_a: "record_of (Some ''20240115'') resp_a = Some rec_a"
  by (simp add: record_of_def resp_a_def build_def get_def get_try_def with_pct_NA rec_a_def)

lemma record_of_resp_b: "record_of (Some ''20240115'') resp_b = Some rec_b"
  by (simp add: record_of_def resp_b_def build_def get_def get_try_def with_pct_NA rec_a_def rec_b_def)

lemma sp0_simps:
  "buf sp0 = []" "batch_size sp0 = 2" "target_date sp0 = Some ''20240115''"
  "is_open (conn sp0)" "has_table (conn sp0)" "working (conn sp0) = []"
  "calls (conn sp0) = [Connect, Execute ''PRAGMA journal_mode=WAL;'',
     Execute ''PRAGMA synchronous=NORMAL;'', Commit,
     Execute ''CREATE TABLE IF NOT EXISTS metrics_snapshot'', Commit]"
  by (simp_all add: sp0_def init_def init_db_def db_connect_def db_execute_def db_commit_def
      db_create_table_def no_fault_def db_file_def Let_def)

text \<open>
  C5. A spider with an empty buffer and threshold \<open>N\<close> processes detail pages from which the
  tuples \<open>recs\<close> are built. After exactly \<open>N\<close> pages, on a database that accepts the write,
  the database has received one \<open>executemany\<close> call with exactly these \<open>N\<close> tuples, followed
  by a commit, and the buffer is empty. After fewer than \<open>N\<close> pages (in particular \<open>N - 1\<close>)
  the connection is untouched and the tuples are all pending.
\<close>

theorem threshold_flush:
  assumes "buf s = []" and "batch_size s = int N" and "0 < N"
    and "map (\<lambda>x. record_of (target_date s) (snd x)) steps = map Some recs"
  shows "(length steps = N \<and> is_open (conn s) \<and> has_table (conn s) \<and>
          (\<forall>(e, resp) \<in> set steps. executemany_fails_at e = None \<and> \<not> commit_fails e) \<longrightarrow>
            buf (parse_details steps s) = [] \<and>
            calls (conn (parse_details steps s)) = calls (conn s) @ [Executemany recs, Commit] \<and>
            durable (conn (parse_details steps s)) = upsert_many recs (working (conn s)) \<and>
            length recs = N) \<and>
         (length steps < N \<longrightarrow>
            buf (parse_details steps s) = recs \<and> conn (parse_details steps s) = conn s)"
proof (intro conjI impI)
  assume lt: "length steps < N"
  then have "int (length (buf s)) + int (length steps) < batch_size s"
    using assms by simp
  from parse_details_below [OF assms(4) this]
  show "buf (parse_details steps s) = recs" and "conn (parse_details steps s) = conn s"
    using assms(1) by simp_all
next
  assume a: "length steps = N \<and> is_open (conn s) \<and> has_table (conn s) \<and>
          (\<forall>(e, resp) \<in> set steps. executemany_fails_at e = None \<and> \<not> commit_fails e)"
  have len: "length recs = length steps"
    using assms(4) by (metis length_map)
  with a show "length recs = N" by simp
  from a assms(3) obtain front e resp where steps: "steps = front @ [(e, resp)]"
    by (cases steps rule: rev_cases) auto
  from len steps obtain recs0 rec where recs: "recs = recs0 @ [rec]"
    by (cases recs rule: rev_cases) auto
  from assms(4) have m0: "map (\<lambda>x. record_of (target_date s) (snd x)) front = map Some recs0"
    and m1: "record_of (target_date s) resp = Some rec"
    using len by (simp_all add: steps recs)
  have "int (length (buf s)) + int (length front) < batch_size s"
    using a assms by (simp add: steps)
  note fr = parse_details_below [OF m0 this]
  let ?s = "parse_details front s"
  have r: "record_of (target_date ?s) resp = Some rec" using m1 fr by simp
  have ge: "int (length (buf ?s)) + 1 \<ge> batch_size ?s"
    using fr a assms len by (simp add: steps recs)
  have env: "executemany_fails_at e = None" "\<not> commit_fails e"
    using a by (auto simp add: steps)
  have op: "is_open (conn ?s)" "has_table (conn ?s)" using a fr by simp_all
  note at = parse_detail_at [OF r ge op env]
  show "buf (parse_details steps s) = []"
    using at(2) by (simp add: steps parse_details_snoc)
  show "calls (conn (parse_details steps s)) = calls (conn s) @ [Executemany recs, Commit]"
    using at(3) fr assms(1) by (simp add: steps parse_details_snoc recs)
  show "durable (conn (parse_details steps s)) = upsert_many recs (working (conn s))"
    using at(4) fr assms(1) by (simp add: steps parse_details_snoc recs)
qed

theorem threshold_flush_witness:
  "buf (parse_details [(no_fault, resp_a), (no_fault, resp_b)] sp0) = [] \<and>
   calls (conn (parse_details [(no_fault, resp_a), (no_fault, resp_b)] sp0)) =
     calls (conn sp0) @ [Executemany [rec_a, rec_b], Commit] \<and>
   durable (conn (parse_details [(no_fault, resp_a), (no_fault, resp_b)] sp0)) =
     upsert_many [rec_a, rec_b] [] \<and>
   buf (parse_details [(exec_fault, resp_a)] sp0) = [rec_a] \<and>
   conn (parse_details [(exec_fault, resp_a)] sp0) = conn sp0"
proof -
  have h: "buf sp0 = []" "batch_size sp0 = int 2" "0 < (2::nat)"
    by (simp_all add: sp0_simps)
  have m2: "map (\<lambda>x. record_of (target_date sp0) (snd x)) [(no_fault, resp_a), (no_fault, resp_b)]
            = map Some [rec_a, rec_b]"
    by (simp add: sp0_simps record_of_resp_a record_of_resp_b)
  have m1: "map (\<lambda>x. record_of (target_date sp0) (snd x)) [(exec_fault, resp_a)] = map Some [rec_a]"
    by (simp add: sp0_simps record_of_resp_a)
  show ?thesis
    using threshold_flush [OF h m2] threshold_flush [OF h m1]
    by (simp add: sp0_simps no_fault_def)
qed


text \<open>A step whose write raises leaves its tuple pending.\<close>

lemma parse_detail_failed_write:
  "fst (parse_detail exec_fault resp_a sp_one) = Some DatabaseError \<and>
   buf (snd (parse_detail exec_fault resp_a sp_one)) = [rec_a]"
proof -
  have one: "buf sp_one = []" "batch_size sp_one = 1" "target_date sp_one = Some ''20240115''"
    "is_open (conn sp_one)" "has_table (conn sp_one)"
    by (simp_all add: sp_one_def init_def init_db_def db_connect_def db_execute_def db_commit_def
        db_create_table_def no_fault_def db_file_def Let_def)
  have r: "record_of (target_date sp_one) resp_a = Some rec_a"
    by (simp add: one record_of_resp_a)
  show ?thesis
    by (simp add: parse_detail_rec [OF r] one Let_def flush_def db_executemany_def exec_fault_def)
qed



section \<open>Listing pages\<close>

lemma parse_rows_skip:
  assumes "td1_text r \<in> {None, Some []} \<or> td2_text r \<in> {None, Some []} \<or> td2_href r \<in> {None, Some []}"
  shows "parse_rows u (r # rs) s = parse_rows u rs s"
  using assms by (auto split: option.splits)

lemma parse_rows_append:
  "parse_rows u (xs @ ys) s =
     (case parse_rows u xs s of (a, s1) \<Rightarrow>
        (case parse_rows u ys s1 of (b, s2) \<Rightarrow> (a @ b, s2)))"
proof (induction xs arbitrary: s)
  case Nil
  then show ?case by (simp split: prod.splits)
next
  case (Cons x xs)
  then show ?case
    by (simp add: Let_def split: prod.splits option.splits)
qed

lemma parse_rows_drop:
  assumes "td1_text r \<in> {None, Some []} \<or> td2_text r \<in> {None, Some []} \<or> td2_href r \<in> {None, Some []}"
  shows "parse_rows u (pre @ r # post) s = parse_rows u (pre @ post) s"
  by (simp add: parse_rows_append parse_rows_skip [OF assms] del: parse_rows.simps)

text \<open>
  C9. A row in which the code, the name or the link is absent or empty yields no request and
  leaves the counter of queued stubs alone. Wherever it stands in the table, the rows before
  and after it are processed as if it were not there, and so is the link to the next page:
  the page yields the same requests, in the same state, as the page without the row.
\<close>

theorem parse_list_skips_incomplete_row:
  assumes "td1_text r \<in> {None, Some []} \<or> td2_text r \<in> {None, Some []} \<or> td2_href r \<in> {None, Some []}"
  shows "parse_rows u [r] s = ([], s) \<and>
         parse_rows u (pre @ r # post) s =
           (fst (parse_rows u pre s) @ fst (parse_rows u post (snd (parse_rows u pre s))),
            snd (parse_rows u post (snd (parse_rows u pre s)))) \<and>
         parse_list (resp\<lparr>rows := pre @ r # post\<rparr>) s = parse_list (resp\<lparr>rows := pre @ post\<rparr>) s"
proof -
  have 1: "parse_rows u [r] s = ([], s)"
    using parse_rows_skip [OF assms, of u "[]" s] by simp
  have 3: "parse_rows u (pre @ post) s =
           (fst (parse_rows u pre s) @ fst (parse_rows u post (snd (parse_rows u pre s))),
            snd (parse_rows u post (snd (parse_rows u pre s))))"
    by (simp add: parse_rows_append split: prod.splits)
  show ?thesis
    by (simp add: 1 3 parse_rows_drop [OF assms] parse_list_def del: parse_rows.simps
        split: prod.splits option.splits)
qed

theorem parse_list_skips_incomplete_row_witness:
  "td2_href row_nolink \<in> {None, Some []} \<and>
   parse_rows (list_url page1) [row_nolink] sp0 = ([], sp0) \<and>
   parse_list page1 sp0 = parse_list (page1\<lparr>rows := [row_ok, row_ok2]\<rparr>) sp0 \<and>
   map req_url (fst (parse_list page1 sp0)) =
     [Join (list_url page1) ''/markets/1301'', Join (list_url page1) ''/markets/1302'',
      Join (list_url page1) ''?page=2''] \<and>
   queued (snd (parse_list page1 sp0)) = 2"
proof -
  have h: "td1_text row_nolink \<in> {None, Some []} \<or> td2_text row_nolink \<in> {None, Some []} \<or>
           td2_href row_nolink \<in> {None, Some []}"
    by (simp add: row_nolink_def)
  have p: "page1 = page1\<lparr>rows := [row_ok] @ row_nolink # [row_ok2]\<rparr>"
    by (simp add: page1_def)
  have e: "parse_list page1 sp0 = parse_list (page1\<lparr>rows := [row_ok, row_ok2]\<rparr>) sp0"
    using parse_list_skips_incomplete_row [OF h, of "list_url page1" sp0 "[row_ok]" "[row_ok2]" page1] p
    by simp
  have q: "queued sp0 = 0" by (simp add: sp0_def init_def)
  have v: "map req_url (fst (parse_list (page1\<lparr>rows := [row_ok, row_ok2]\<rparr>) sp0)) =
     [Join (list_url page1) ''/markets/1301'', Join (list_url page1) ''/markets/1302'',
      Join (list_url page1) ''?page=2'']"
    "queued (snd (parse_list (page1\<lparr>rows := [row_ok, row_ok2]\<rparr>) sp0)) = 2"
    by (simp_all add: parse_list_def page1_def row_ok_def row_ok2_def q Let_def)
  show ?thesis
    using parse_list_skips_incomplete_row [OF h, of "list_url page1" sp0 "[]" "[]" page1] e v
    by (simp add: row_nolink_def)
qed

section \<open>Validation of the target date\<close>

text \<open>
  C2, as the code has it. When the target date is missing, empty or rejected by \<open>strptime\<close>,
  \<open>start_requests\<close> raises \<open>ValueError\<close> and yields no request, and no row is buffered or
  written. The constructor has by then opened the connection, run the two pragmas, created the
  table if it was absent, and committed: these are the only calls the database has received.
\<close>

theorem invalid_date_aborts_after_store_setup:
  assumes "td = None \<or> td = Some [] \<or> (\<exists>d. td = Some d \<and> \<not> strptime d)"
  shows "start_requests strptime (init td bs d0) = Inl ValueError \<and>
         buf (init td bs d0) = [] \<and>
         durable (conn (init td bs d0)) = durable d0 \<and>
         working (conn (init td bs d0)) = durable d0 \<and>
         calls (conn (init td bs d0)) =
           calls d0 @ [Connect, Execute ''PRAGMA journal_mode=WAL;'',
             Execute ''PRAGMA synchronous=NORMAL;'', Commit,
             Execute ''CREATE TABLE IF NOT EXISTS metrics_snapshot'', Commit] \<and>
         is_open (conn (init td bs d0)) \<and> has_table (conn (init td bs d0))"
proof -
  have t: "target_date (init td bs d0) = td" by (simp add: init_def Let_def)
  have "start_requests strptime (init td bs d0) = Inl ValueError"
    using assms by (auto simp add: start_requests_def t)
  then show ?thesis
    by (simp add: init_def init_db_def db_connect_def db_execute_def db_commit_def
        db_create_table_def no_fault_def Let_def)
qed

theorem invalid_date_aborts_after_store_setup_witness:
  "\<not> strict_date ''2024-01-15'' \<and>
   start_requests strict_date (init (Some ''2024-01-15'') (Some 50) db_file) = Inl ValueError \<and>
   start_requests strict_date (init None None db_file) = Inl ValueError \<and>
   durable (conn (init (Some ''2024-01-15'') (Some 50) db_file)) = [] \<and>
   calls (conn (init (Some ''2024-01-15'') (Some 50) db_file)) =
     [Connect, Execute ''PRAGMA journal_mode=WAL;'', Execute ''PRAGMA synchronous=NORMAL;'', Commit,
      Execute ''CREATE TABLE IF NOT EXISTS metrics_snapshot'', Commit]"
proof -
  have n: "\<not> strict_date ''2024-01-15''" by (simp add: strict_date_def)
  then have h: "Some ''2024-01-15'' = None \<or> Some ''2024-01-15'' = Some [] \<or>
      (\<exists>d. Some ''2024-01-15'' = Some d \<and> \<not> strict_date d)" by simp
  have d: "durable db_file = []" "calls db_file = []" by (simp_all add: db_file_def)
  show ?thesis
    using n invalid_date_aborts_after_store_setup [OF h, of "Some 50" db_file]
      invalid_date_aborts_after_store_setup [of None strict_date None db_file]
    by (simp add: d)
qed

text \<open>
  With no target date at all the run aborts, yet the connection is open and the table exists,
  on a database that had neither before.
\<close>

theorem missing_date_store_counterexample:
  "start_requests strict_date (init None (Some 50) db_file) = Inl ValueError \<and>
   \<not> is_open db_file \<and> is_open (conn (init None (Some 50) db_file)) \<and>
   \<not> has_table db_file \<and> has_table (conn (init None (Some 50) db_file)) \<and>
   Connect \<in> set (calls (conn (init None (Some 50) db_file))) \<and>
   Execute ''CREATE TABLE IF NOT EXISTS metrics_snapshot'' \<in> set (calls (conn (init None (Some 50) db_file)))"
  by (simp add: start_requests_def init_def init_db_def db_connect_def db_execute_def db_commit_def
      db_create_table_def no_fault_def db_file_def Let_def)

end
